theory Spec2Isabelle
  imports Main "HOL-Library.AList"
begin

section \<open>Shared vocabulary\<close>

text \<open>
  The Python sources raise exceptions of a handful of classes. They are modelled as one
  datatype; a function that can raise returns \<open>exn + 'a\<close> with \<open>Inl\<close> for the raise.
  \<^item> \<open>KafkaException\<close> is \<open>confluent_kafka.KafkaException\<close>;
  \<^item> \<open>KafkaError\<close> and \<open>ConsumerStoppedError\<close> are the two classes of
    \<open>aiokafka.errors\<close> (unrelated by inheritance);
  \<^item> \<open>OtherException\<close> stands for an exception of any other class;
  \<^item> \<open>AssertionError\<close> is raised by a failing \<open>assert\<close>, \<open>SetupError\<close> is
    \<open>faststream.exceptions.SetupError\<close>. Both carry which message was given.
\<close>

datatype assert_msg =
    SetupSubscriberFirst    \<comment> \<open>"You should setup subscriber at first."\<close>
  | StartSubscriberFirst    \<comment> \<open>"You should start subscriber at first."\<close>
  | GetOneWithHandlers      \<comment> \<open>"You can't use `get_one` method if subscriber has registered handlers."\<close>
  | IterWithHandlers        \<comment> \<open>"You can't use iterator if subscriber has registered handlers."\<close>

datatype setup_msg =
    AutoCommitWithAckPolicy \<comment> \<open>"You can't use deprecated `auto_commit` and `ack_policy` simultaneously. ..."\<close>
  | NoAckWithAckPolicy      \<comment> \<open>"You can't use deprecated `no_ack` and `ack_policy` simultaneously. ..."\<close>
  | MaxWorkersManualCommit  \<comment> \<open>"Max workers not work with manual commit mode."\<close>
  | KeyWithBatchPublisher   \<comment> \<open>"You can't setup `key` with batch publisher"\<close>

datatype exn =
    KafkaException
  | KafkaError
  | ConsumerStoppedError
  | OtherException
  | AssertionError assert_msg
  | SetupError setup_msg

section \<open>Destination renaming: \<open>add_prefix\<close>\<close>

text \<open>
  \<open>faststream.confluent.schemas.TopicPartition\<close> as \<open>add_prefix\<close> rebuilds it: five
  fields, of which only the topic is rewritten. The fields carry the prefix \<open>tp_\<close>
  because \<open>partition\<close> and \<open>offset\<close> would hide library constants.
\<close>

record TopicPartition =
  tp_topic :: string
  tp_partition :: int
  tp_offset :: int
  tp_metadata :: "string option"
  tp_leader_epoch :: "int option"

text \<open>\<open>aiokafka.TopicPartition\<close> is a named tuple of a topic and a partition.\<close>

datatype AIOTopicPartition = AIOTopicPartition (aio_topic: string) (aio_partition: int)

text \<open>
  Every subscriber class of the sources derives from \<open>SubscriberUsecase\<close>, which holds
  the registered handlers \<open>calls\<close> (\<open>'h\<close> is a registered handler). The backends extend
  it, as the classes do.

  \<open>LogicSubscriber\<close> (Confluent and Kafka alike) adds what the functions below read or
  write: the declared topics and partitions, the consumer (set by \<open>start\<close>), the builder
  given by \<open>_setup\<close> (called with the topics and the partitions, it makes the consumer
  or raises) and the background tasks of \<open>TasksMixin\<close>. \<open>'p\<close> is the partition type
  of the backend, \<open>'c\<close> the consumer handle.

  The Kafka \<open>LogicSubscriber\<close> declares its destinations in three ways: by topics, by
  partitions or by a pattern (\<open>self._pattern\<close>, here \<open>kafka_pattern\<close>, \<open>None\<close> when
  the subscriber has none). \<open>KafkaSubscriber\<close> is the common part with the pattern.
\<close>

datatype task = ConsumeTask

record 'h SubscriberUsecase =
  calls :: "'h list"

record ('p, 'c, 'h) LogicSubscriber = "'h SubscriberUsecase" +
  topics :: "string list"
  partitions :: "'p list"
  consumer :: "'c option"
  builder :: "(string list \<Rightarrow> 'p list \<Rightarrow> exn + 'c) option"
  tasks :: "task list"

record ('c, 'h) KafkaSubscriber = "(AIOTopicPartition, 'c, 'h) LogicSubscriber" +
  kafka_pattern :: "string option"

text \<open>
  Confluent, \<open>LogicSubscriber.add_prefix\<close>: every topic becomes \<open>f"{prefix}{t}"\<close>,
  every partition is rebuilt with the prefixed topic and its other four fields.
\<close>

definition confluent_add_prefix ::
  "string \<Rightarrow> (TopicPartition, 'c, 'h) LogicSubscriber \<Rightarrow> (TopicPartition, 'c, 'h) LogicSubscriber" where
  "confluent_add_prefix prefix s =
     s\<lparr> topics := map (\<lambda>t. prefix @ t) (topics s),
        partitions :=
          map (\<lambda>p. \<lparr> tp_topic = prefix @ tp_topic p,
                     tp_partition = tp_partition p,
                     tp_offset = tp_offset p,
                     tp_metadata = tp_metadata p,
                     tp_leader_epoch = tp_leader_epoch p \<rparr>)
              (partitions s) \<rparr>"

text \<open>
  Kafka, \<open>LogicSubscriber.add_prefix\<close>: the same over the two-field partition. The
  pattern is not assigned.
\<close>

definition kafka_add_prefix :: "string \<Rightarrow> ('c, 'h) KafkaSubscriber \<Rightarrow> ('c, 'h) KafkaSubscriber" where
  "kafka_add_prefix prefix s =
     s\<lparr> topics := map (\<lambda>t. prefix @ t) (topics s),
        partitions :=
          map (\<lambda>p. AIOTopicPartition (prefix @ aio_topic p) (aio_partition p)) (partitions s) \<rparr>"

text \<open>
  Python's \<open>str\<close> of an integer (decimal digits, a minus sign when negative), which the
  f-string of \<open>topic_names\<close> applies to a partition number.
\<close>

function str_nat :: "nat \<Rightarrow> string" where
  "str_nat n = (if n < 10 then [char_of (48 + n)] else str_nat (n div 10) @ [char_of (48 + n mod 10)])"
  by pat_completeness auto
termination
  by (relation "measure (\<lambda>n. n)") auto

declare str_nat.simps [simp del]

definition str_int :: "int \<Rightarrow> string" where
  "str_int i = (if i < 0 then CHR ''-'' # str_nat (nat (- i)) else str_nat (nat i))"

text \<open>
  Kafka, \<open>LogicSubscriber.topic_names\<close>: the destination names the subscriber declares,
  which are the pattern alone when there is one (a true, that is non-empty, pattern),
  else the topics when there are any, else one name per partition.
\<close>

definition kafka_topic_names :: "('c, 'h) KafkaSubscriber \<Rightarrow> string list" where
  "kafka_topic_names s =
     (let named =
            (if topics s \<noteq> [] then topics s
             else map (\<lambda>p. aio_topic p @ ''-'' @ str_int (aio_partition p)) (partitions s))
      in case kafka_pattern s of
           None \<Rightarrow> named
         | Some pat \<Rightarrow> if pat \<noteq> [] then [pat] else named)"

text \<open>
  Redis: \<open>ListSub\<close> (name, batch flag, maximal records and polling interval, the last
  in milliseconds here since the source's float plays no role).
  \<open>_ListHandlerMixin.add_prefix\<close> deep-copies the subscriber's \<open>ListSub\<close>, prefixes
  the copy's name and stores the copy; the function gives the stored \<open>ListSub\<close>.
\<close>

record ListSub =
  name :: string
  batch :: bool
  max_records :: int
  polling_interval_ms :: nat

definition redis_list_add_prefix :: "string \<Rightarrow> ListSub \<Rightarrow> ListSub" where
  "redis_list_add_prefix prefix list_sub =
     (let new_list = list_sub in new_list\<lparr> name := prefix @ name new_list \<rparr>)"

section \<open>The consumption loop: \<open>LogicSubscriber._consume\<close>\<close>

text \<open>
  One pass of \<open>while self.running\<close> reads \<open>self.running\<close> and, when it is true, awaits
  \<open>self.get_msg()\<close>. Both are given by the environment, so a run of the loop is driven
  by a script with one entry per pass: the value of \<open>self.running\<close> read at the head of
  the pass, and what \<open>get_msg\<close> does in it (returns a value or raises). The loop of the
  source has no bound of its own; the script is the finite part of the run that is
  observed, and a script that ends while the loop is still iterating gives \<open>Pending\<close>.

  What the loop does to the world is recorded as a trace: \<open>Sleep 5\<close> for
  \<open>await anyio.sleep(5)\<close> and \<open>ConsumeOne msg\<close> for \<open>await self.consume_one(msg)\<close>.
  \<open>consume_one\<close> hands the message to \<open>SubscriberUsecase.consume\<close> (or to the worker
  queue of the concurrent subscriber), which is outside these sources; it appears in the
  trace and is taken not to raise.
\<close>

datatype 'r fetch = Returns 'r | Raises exn

datatype 'm event = Sleep nat | ConsumeOne 'm

datatype loop_exit =
    Returned      \<comment> \<open>the coroutine returned\<close>
  | Raised exn    \<comment> \<open>an exception left the coroutine\<close>
  | Pending       \<comment> \<open>the script ended, the loop is still iterating\<close>

record 'm loop_state =
  connected :: bool
  events :: "'m event list"

text \<open>
  Confluent. \<open>get_msg\<close> returns \<open>Optional[MsgType]\<close>; only \<open>KafkaException\<close> is caught,
  every other exception leaves the coroutine.
\<close>

fun confluent_loop ::
  "'m loop_state \<Rightarrow> (bool \<times> 'm option fetch) list \<Rightarrow> loop_exit \<times> 'm loop_state" where
  "confluent_loop st [] = (Pending, st)"
| "confluent_loop st ((running, f) # rest) =
     (if \<not> running then (Returned, st)
      else case f of
        Raises e \<Rightarrow>
          (if e = KafkaException
           then confluent_loop
                  (st\<lparr> connected := (if connected st then False else connected st),
                      events := events st @ [Sleep 5] \<rparr>) rest
           else (Raised e, st))
      | Returns msg \<Rightarrow>
          (let st1 = st\<lparr> connected := (if \<not> connected st then True else connected st) \<rparr>
           in case msg of
                None \<Rightarrow> confluent_loop st1 rest
              | Some m \<Rightarrow> confluent_loop (st1\<lparr> events := events st1 @ [ConsumeOne m] \<rparr>) rest))"

definition confluent_consume ::
  "('p, 'c, 'h) LogicSubscriber \<Rightarrow> (bool \<times> 'm option fetch) list \<Rightarrow> loop_exit \<times> 'm event list" where
  "confluent_consume sub script =
     (case consumer sub of
        None \<Rightarrow> (Raised (AssertionError StartSubscriberFirst), [])
      | Some c \<Rightarrow>
          (let r = confluent_loop \<lparr> connected = True, events = [] \<rparr> script
           in (fst r, events (snd r))))"

text \<open>
  Kafka. \<open>get_msg\<close> returns a \<open>MsgType\<close> that is tested for truth (\<open>if msg:\<close>; an empty
  batch is false), so the test is the parameter \<open>truthy\<close>. \<open>KafkaError\<close> is caught first
  and retried, \<open>ConsumerStoppedError\<close> returns, every other exception leaves the
  coroutine.
\<close>

fun kafka_loop ::
  "('m \<Rightarrow> bool) \<Rightarrow> 'm loop_state \<Rightarrow> (bool \<times> 'm fetch) list \<Rightarrow> loop_exit \<times> 'm loop_state" where
  "kafka_loop truthy st [] = (Pending, st)"
| "kafka_loop truthy st ((running, f) # rest) =
     (if \<not> running then (Returned, st)
      else case f of
        Raises e \<Rightarrow>
          (if e = KafkaError
           then kafka_loop truthy
                  (st\<lparr> connected := (if connected st then False else connected st),
                      events := events st @ [Sleep 5] \<rparr>) rest
           else if e = ConsumerStoppedError then (Returned, st)
           else (Raised e, st))
      | Returns msg \<Rightarrow>
          (let st1 = st\<lparr> connected := (if \<not> connected st then True else connected st) \<rparr>
           in if truthy msg
              then kafka_loop truthy (st1\<lparr> events := events st1 @ [ConsumeOne msg] \<rparr>) rest
              else kafka_loop truthy st1 rest))"

definition kafka_consume ::
  "('m \<Rightarrow> bool) \<Rightarrow> ('p, 'c, 'h) LogicSubscriber \<Rightarrow> (bool \<times> 'm fetch) list
     \<Rightarrow> loop_exit \<times> 'm event list" where
  "kafka_consume truthy sub script =
     (case consumer sub of
        None \<Rightarrow> (Raised (AssertionError StartSubscriberFirst), [])
      | Some c \<Rightarrow>
          (let r = kafka_loop truthy \<lparr> connected = True, events = [] \<rparr> script
           in (fst r, events (snd r))))"

text \<open>
  A pass that keeps the Kafka loop going: \<open>self.running\<close> is true and \<open>get_msg\<close> returns
  or raises the retried \<open>KafkaError\<close>.
\<close>

fun keeps_going :: "bool \<times> 'm fetch \<Rightarrow> bool" where
  "keeps_going (running, Returns msg) = running"
| "keeps_going (running, Raises e) = (running \<and> e = KafkaError)"

text \<open>The script of \<open>K\<close> transient failures followed by one successful fetch.\<close>

text \<open>Python's truth test of a tuple (the batch a Kafka \<open>BatchSubscriber\<close> fetches).\<close>

definition tuple_truthy :: "'a list \<Rightarrow> bool" where
  "tuple_truthy xs = (xs \<noteq> [])"

definition fail_then_fetch :: "exn \<Rightarrow> nat \<Rightarrow> 'r \<Rightarrow> (bool \<times> 'r fetch) list" where
  "fail_then_fetch e K r = replicate K (True, Raises e) @ [(True, Returns r)]"

section \<open>Python values\<close>

text \<open>
  Python's truth test and its \<open>or\<close>, which returns its left operand when that is true
  and its right operand otherwise. \<open>None\<close>, the empty string, empty bytes, the empty
  dictionary and \<open>0\<close> are false. Strings and bytes are \<open>string\<close>; an optional value is
  an \<open>option\<close>.
\<close>

definition str_or :: "'a list \<Rightarrow> 'a list \<Rightarrow> 'a list" where
  "str_or a b = (if a \<noteq> [] then a else b)"

fun opt_truthy :: "'a list option \<Rightarrow> bool" where
  "opt_truthy None = False"
| "opt_truthy (Some xs) = (xs \<noteq> [])"

definition opt_or :: "'a list option \<Rightarrow> 'a list option \<Rightarrow> 'a list option" where
  "opt_or a b = (if opt_truthy a then a else b)"

fun or_default :: "'a list option \<Rightarrow> 'a list \<Rightarrow> 'a list" where
  "or_default None d = d"
| "or_default (Some xs) d = (if xs \<noteq> [] then xs else d)"

fun int_truthy :: "int option \<Rightarrow> bool" where
  "int_truthy None = False"
| "int_truthy (Some i) = (i \<noteq> 0)"

definition int_or :: "int option \<Rightarrow> int option \<Rightarrow> int option" where
  "int_or a b = (if int_truthy a then a else b)"

text \<open>
  A \<open>dict\<close> is an association list with distinct keys, in insertion order.
  \<open>d[k] = v\<close> is \<open>AList.update k v d\<close>: the value is replaced in place when the key is
  there, the pair is appended otherwise. \<open>a | b\<close> is a copy of \<open>a\<close> updated with the
  pairs of \<open>b\<close> in their order.
\<close>

fun dict_or :: "('k \<times> 'v) list \<Rightarrow> ('k \<times> 'v) list \<Rightarrow> ('k \<times> 'v) list" where
  "dict_or a [] = a"
| "dict_or a ((k, v) # b) = dict_or (AList.update k v a) b"

datatype py_value = PyBool bool | PyInt int | PyStr string

section \<open>Acknowledgment policy and subscriber options\<close>

text \<open>
  Modelled from the spec: the enum \<open>AckPolicy\<close> (\<open>faststream.middlewares\<close>) is not among
  the sources. Its members are the four values the spec names in its data model;
  \<open>ACK_FIRST\<close>, \<open>REJECT_ON_ERROR\<close> and \<open>DO_NOTHING\<close> are the members the sources use,
  \<open>MANUAL\<close> is the spec's ManualAck. The sentinel \<open>EMPTY\<close> ("the caller did not say")
  is \<open>None\<close> of an option, for the policy and for the deprecated toggles alike.
\<close>

datatype AckPolicy = ACK_FIRST | REJECT_ON_ERROR | MANUAL | DO_NOTHING

text \<open>
  Modelled from the spec: the Ack Policy Engine (the acknowledgement middleware) is not
  among the sources. This is the table of the spec's section 4.2: the action before the
  handler runs, and the action after it, by its outcome.
\<close>

datatype handler_outcome = Success | Failure

datatype ack_action = Ack | Nack | NoAction

fun pre_handler :: "AckPolicy \<Rightarrow> ack_action" where
  "pre_handler ACK_FIRST = Ack"
| "pre_handler REJECT_ON_ERROR = NoAction"
| "pre_handler MANUAL = NoAction"
| "pre_handler DO_NOTHING = NoAction"

fun post_handler :: "AckPolicy \<Rightarrow> handler_outcome \<Rightarrow> ack_action" where
  "post_handler ACK_FIRST outcome = NoAction"
| "post_handler REJECT_ON_ERROR Success = Ack"
| "post_handler REJECT_ON_ERROR Failure = Nack"
| "post_handler MANUAL outcome = NoAction"
| "post_handler DO_NOTHING outcome = NoAction"

text \<open>
  The options every subscriber constructor receives (\<open>base_configs\<close>, or the
  \<open>internal_options\<close> of \<open>base_options\<close>): the acknowledgment policy and the default
  parser and decoder, which are bound methods of a parser object \<open>'o\<close> (\<open>EMPTY\<close> until a
  constructor sets them).
\<close>

datatype 'o bound_method =
    parse_message 'o
  | decode_message 'o
  | parse_message_batch 'o
  | decode_message_batch 'o

record 'o SubscriberUsecaseConfigs =
  ack_policy :: "AckPolicy option"
  default_parser :: "'o bound_method option"
  default_decoder :: "'o bound_method option"

section \<open>Subscriber factories\<close>

text \<open>
  Confluent, \<open>_validate_input_for_misconfigure\<close>. The two \<open>warnings.warn\<close> calls do not
  change the result and are left out. The last test compares \<open>AckPolicy.ACK_FIRST\<close>
  with itself, as the source does.
\<close>

definition confluent_validate_input_for_misconfigure ::
  "AckPolicy option \<Rightarrow> bool option \<Rightarrow> bool option \<Rightarrow> int \<Rightarrow> exn + unit" where
  "confluent_validate_input_for_misconfigure ack_policy_arg auto_commit no_ack max_workers =
     (if auto_commit \<noteq> None \<and> ack_policy_arg \<noteq> None
      then Inl (SetupError AutoCommitWithAckPolicy)
      else
        let ack_policy1 =
              (case auto_commit of
                 None \<Rightarrow> ack_policy_arg
               | Some a \<Rightarrow> Some (if a then ACK_FIRST else REJECT_ON_ERROR))
        in if no_ack \<noteq> None \<and> ack_policy1 \<noteq> None
           then Inl (SetupError NoAckWithAckPolicy)
           else
             let ack_policy2 =
                   (case no_ack of
                      None \<Rightarrow> ack_policy1
                    | Some n \<Rightarrow> (if n then Some DO_NOTHING else None));
                 ack_policy3 = (case ack_policy2 of None \<Rightarrow> Some ACK_FIRST | Some p \<Rightarrow> Some p)
             in if ACK_FIRST \<noteq> ACK_FIRST \<and> max_workers > 1
                then Inl (SetupError MaxWorkersManualCommit)
                else Inr ())"

text \<open>
  Confluent, \<open>create_subscriber\<close>. The arguments that are only passed on
  (\<open>polling_interval\<close>, the broker dependencies and middlewares, the specification
  arguments) are left out; \<open>default_decoder\<close> and \<open>default_parser\<close> are \<open>EMPTY\<close>.
\<close>

record 'o ConfluentSubscriberBaseConfigs = "'o SubscriberUsecaseConfigs" +
  cfg_topics :: "string list"
  cfg_partitions :: "TopicPartition list"
  cfg_group_id :: "string option"
  cfg_connection_data :: "(string \<times> py_value) list"
  cfg_no_reply :: bool

datatype 'o confluent_subscriber =
    SpecificationBatchSubscriber "'o ConfluentSubscriberBaseConfigs" "int option"
  | SpecificationConcurrentDefaultSubscriber "'o ConfluentSubscriberBaseConfigs" int
  | SpecificationDefaultSubscriber "'o ConfluentSubscriberBaseConfigs"


definition confluent_create_subscriber ::
  "string list \<Rightarrow> TopicPartition list \<Rightarrow> bool \<Rightarrow> int option \<Rightarrow> string option
     \<Rightarrow> (string \<times> py_value) list \<Rightarrow> bool option \<Rightarrow> AckPolicy option \<Rightarrow> bool option
     \<Rightarrow> int \<Rightarrow> bool \<Rightarrow> exn + 'o confluent_subscriber" where
  "confluent_create_subscriber topics_arg partitions_arg batch_arg max_records_arg group_id
       connection_data auto_commit ack_policy_arg no_ack max_workers no_reply =
     (case confluent_validate_input_for_misconfigure ack_policy_arg auto_commit no_ack max_workers of
        Inl e \<Rightarrow> Inl e
      | Inr u \<Rightarrow>
          let ack_policy1 =
                (case auto_commit of
                   None \<Rightarrow> ack_policy_arg
                 | Some a \<Rightarrow> Some (if a then ACK_FIRST else REJECT_ON_ERROR));
              ack_policy2 =
                (case no_ack of
                   None \<Rightarrow> ack_policy1
                 | Some n \<Rightarrow> (if n then Some DO_NOTHING else None));
              ack_policy3 = (case ack_policy2 of None \<Rightarrow> Some ACK_FIRST | Some p \<Rightarrow> Some p);
              connection_data1 =
                (if ack_policy3 = Some ACK_FIRST
                 then AList.update ''enable_auto_commit'' (PyBool True) connection_data
                 else connection_data);
              ack_policy4 = (if ack_policy3 = Some ACK_FIRST then Some DO_NOTHING else ack_policy3);
              base_configs =
                \<lparr> ack_policy = ack_policy4, default_parser = None, default_decoder = None,
                  cfg_topics = topics_arg, cfg_partitions = partitions_arg,
                  cfg_group_id = group_id, cfg_connection_data = connection_data1,
                  cfg_no_reply = no_reply \<rparr>
          in Inr (if batch_arg then SpecificationBatchSubscriber base_configs max_records_arg
                  else if max_workers > 1
                  then SpecificationConcurrentDefaultSubscriber base_configs max_workers
                  else SpecificationDefaultSubscriber base_configs))"




section \<open>Subscriber constructors\<close>

text \<open>
  NATS, \<open>CoreSubscriber.__init__\<close>: builds a \<open>NatsParser\<close> from the subject and the
  policy, stores the queue, sets the default parser and decoder of \<open>base_configs\<close> to
  the parser's methods and hands \<open>base_configs\<close> to the base constructor (not among the
  sources). The result is the queue and the options as the base constructor gets them.
  \<open>NatsParser\<close> keeps the two arguments it is built from.
\<close>

record NatsParser =
  pattern :: string
  is_ack_disabled :: bool

record 'o NatsSubscriberBaseConfigs = "'o SubscriberUsecaseConfigs" +
  subject :: string

definition CoreSubscriber_init ::
  "string \<Rightarrow> NatsParser NatsSubscriberBaseConfigs \<Rightarrow> string \<times> NatsParser NatsSubscriberBaseConfigs" where
  "CoreSubscriber_init queue_arg base_configs =
     (let nats_parser = \<lparr> pattern = subject base_configs,
                       is_ack_disabled = (ack_policy base_configs \<noteq> Some DO_NOTHING) \<rparr>
      in (queue_arg,
          base_configs\<lparr> default_parser := Some (parse_message nats_parser),
                        default_decoder := Some (decode_message nats_parser) \<rparr>))"

text \<open>
  Confluent, \<open>DefaultSubscriber.__init__\<close> and \<open>BatchSubscriber.__init__\<close>: the parser
  is manual unless the policy is \<open>ACK_FIRST\<close>; the decoder and the parser of the internal
  options are set (in this order); the result is the parser kept in \<open>self.parser\<close> and
  the options as \<open>LogicSubscriber.__init__\<close> gets them.
\<close>

record AsyncConfluentParser =
  is_manual :: bool

definition confluent_DefaultSubscriber_init ::
  "AsyncConfluentParser SubscriberUsecaseConfigs
     \<Rightarrow> AsyncConfluentParser \<times> AsyncConfluentParser SubscriberUsecaseConfigs" where
  "confluent_DefaultSubscriber_init internal_options =
     (let parser = \<lparr> is_manual = (ack_policy internal_options \<noteq> Some ACK_FIRST) \<rparr>
      in (parser,
          internal_options\<lparr> default_decoder := Some (decode_message parser),
                             default_parser := Some (parse_message parser) \<rparr>))"

definition confluent_BatchSubscriber_init ::
  "AsyncConfluentParser SubscriberUsecaseConfigs
     \<Rightarrow> AsyncConfluentParser \<times> AsyncConfluentParser SubscriberUsecaseConfigs" where
  "confluent_BatchSubscriber_init internal_options =
     (let parser = \<lparr> is_manual = (ack_policy internal_options \<noteq> Some ACK_FIRST) \<rparr>
      in (parser,
          internal_options\<lparr> default_decoder := Some (decode_message_batch parser),
                             default_parser := Some (parse_message_batch parser) \<rparr>))"

text \<open>
  Redis list subscribers. \<open>_ListHandlerMixin.__init__\<close> hands \<open>base_configs\<close> to the
  base constructor (\<open>LogicSubscriber\<close> of \<open>redis/subscriber/usecases/basic.py\<close>, not
  among the sources) and stores the \<open>ListSub\<close>. The new subscriber is taken to have no
  handler and no client yet and to keep the options it was given. \<open>ListSubscriber\<close>
  and \<open>BatchListSubscriber\<close> first set the parser, the decoder and the policy of
  \<open>base_configs\<close>.
\<close>

datatype redis_parser = RedisListParser | RedisBatchListParser

record ('h, 'cl) ListHandlerMixin = "'h SubscriberUsecase" +
  client :: "'cl option"
  list_sub :: ListSub
  configs :: "redis_parser SubscriberUsecaseConfigs"

definition ListHandlerMixin_init ::
  "redis_parser SubscriberUsecaseConfigs \<Rightarrow> ListSub \<Rightarrow> ('h, 'cl) ListHandlerMixin" where
  "ListHandlerMixin_init base_configs list_arg =
     \<lparr> calls = [], client = None, list_sub = list_arg, configs = base_configs \<rparr>"

definition ListSubscriber_init ::
  "ListSub \<Rightarrow> redis_parser SubscriberUsecaseConfigs \<Rightarrow> ('h, 'cl) ListHandlerMixin" where
  "ListSubscriber_init list_arg base_configs =
     (let parser = RedisListParser;
          base_configs1 = base_configs\<lparr> default_parser := Some (parse_message parser) \<rparr>;
          base_configs2 = base_configs1\<lparr> default_decoder := Some (decode_message parser) \<rparr>;
          base_configs3 = base_configs2\<lparr> ack_policy := Some DO_NOTHING \<rparr>
      in ListHandlerMixin_init base_configs3 list_arg)"

definition BatchListSubscriber_init ::
  "redis_parser SubscriberUsecaseConfigs \<Rightarrow> ListSub \<Rightarrow> ('h, 'cl) ListHandlerMixin" where
  "BatchListSubscriber_init base_configs list_arg =
     (let parser = RedisBatchListParser;
          base_configs1 = base_configs\<lparr> default_parser := Some (parse_message parser) \<rparr>;
          base_configs2 = base_configs1\<lparr> default_decoder := Some (decode_message parser) \<rparr>;
          base_configs3 = base_configs2\<lparr> ack_policy := Some DO_NOTHING \<rparr>
      in ListHandlerMixin_init base_configs3 list_arg)"

text \<open>
  \<open>ConcurrentListSubscriber\<close> derives from \<open>ConcurrentMixin\<close> and \<open>ListSubscriber\<close>.
  Its constructor passes all its arguments to \<open>super().__init__\<close>; \<open>ConcurrentMixin\<close>
  is not among the sources and is taken to keep \<open>max_workers\<close> and to reach
  \<open>ListSubscriber.__init__\<close>, the next constructor in the resolution order, with the
  \<open>ListSub\<close> and \<open>base_configs\<close> (\<open>ListSubscriber.__init__\<close> has no parameter for the
  specification options, which are left out).
\<close>

definition ConcurrentListSubscriber_init ::
  "redis_parser SubscriberUsecaseConfigs \<Rightarrow> ListSub \<Rightarrow> int \<Rightarrow> ('h, 'cl) ListHandlerMixin \<times> int" where
  "ConcurrentListSubscriber_init base_configs list_arg max_workers =
     (ListSubscriber_init list_arg base_configs, max_workers)"

section \<open>Pull-style access: \<open>get_one\<close> and the iterator, and \<open>start\<close>\<close>

text \<open>
  Confluent, \<open>LogicSubscriber.start\<close>: asserts the builder, builds the consumer from the
  topics and partitions and stores it, hands it to the parser (\<open>self.parser._setup\<close>),
  starts it (\<open>consumer.start()\<close>), runs the base class's \<open>start\<close> and adds the
  consumption task when handlers are registered. The builder, the parser's \<open>_setup\<close>,
  the client's \<open>start\<close> and the base class's \<open>start\<close> are outside these sources and
  may raise: each is a parameter that returns or raises, and the first raise ends
  \<open>start\<close>.
\<close>

definition confluent_start ::
  "('c \<Rightarrow> exn + unit) \<Rightarrow> ('c \<Rightarrow> exn + unit)
     \<Rightarrow> ((TopicPartition, 'c, 'h) LogicSubscriber \<Rightarrow> exn + (TopicPartition, 'c, 'h) LogicSubscriber)
     \<Rightarrow> (TopicPartition, 'c, 'h) LogicSubscriber \<Rightarrow> exn + (TopicPartition, 'c, 'h) LogicSubscriber" where
  "confluent_start parser_setup consumer_start base_start sub =
     (case builder sub of
        None \<Rightarrow> Inl (AssertionError SetupSubscriberFirst)
      | Some b \<Rightarrow>
          (case b (topics sub) (partitions sub) of
             Inl e \<Rightarrow> Inl e
           | Inr c \<Rightarrow>
               (let sub1 = sub\<lparr> consumer := Some c \<rparr>
                in case parser_setup c of
                     Inl e \<Rightarrow> Inl e
                   | Inr u \<Rightarrow>
                       (case consumer_start c of
                          Inl e \<Rightarrow> Inl e
                        | Inr v \<Rightarrow>
                            (case base_start sub1 of
                               Inl e \<Rightarrow> Inl e
                             | Inr sub2 \<Rightarrow>
                                 Inr (if calls sub2 \<noteq> []
                                      then sub2\<lparr> tasks := tasks sub2 @ [ConsumeTask] \<rparr>
                                      else sub2))))))"

text \<open>
  Confluent, \<open>LogicSubscriber.get_one\<close>: two assertions, then one \<open>getone\<close> of the
  consumer (the parameter \<open>getone\<close>: what the client returns for this consumer and
  timeout, \<open>None\<close> when nothing arrived), given to \<open>process_msg\<close> (parse and decode; not
  among the sources, a parameter).
\<close>

definition confluent_get_one ::
  "('raw option \<Rightarrow> 'env option) \<Rightarrow> ('c \<Rightarrow> 't \<Rightarrow> 'raw option) \<Rightarrow> ('p, 'c, 'h) LogicSubscriber \<Rightarrow> 't
     \<Rightarrow> exn + 'env option" where
  "confluent_get_one process_msg getone sub timeout =
     (case consumer sub of
        None \<Rightarrow> Inl (AssertionError StartSubscriberFirst)
      | Some c \<Rightarrow>
          if calls sub \<noteq> [] then Inl (AssertionError GetOneWithHandlers)
          else Inr (process_msg (getone c timeout)))"

text \<open>
  Redis list subscribers poll: under \<open>anyio.move_on_after(timeout)\<close> the loop
  \<open>while (raw_message := await lpop(...)) is None: await sleep(...)\<close> assigns every
  result of \<open>lpop\<close> to \<open>raw_message\<close> and ends at the first that is not \<open>None\<close>, or
  is cancelled when the time is up. \<open>lpops\<close> are the results of the \<open>lpop\<close> calls
  completed before the cancellation, in order; \<open>poll\<close> gives \<open>raw_message\<close> after
  the polling from its value before (which stays when no \<open>lpop\<close> completed).
\<close>

fun poll :: "string option \<Rightarrow> string option list \<Rightarrow> string option" where
  "poll raw_message [] = raw_message"
| "poll raw_message (None # rest) = poll None rest"
| "poll raw_message (Some raw # rest) = Some raw"

text \<open>
  Redis, \<open>_ListHandlerMixin.get_one\<close>: two assertions, then one polling that starts
  from \<open>raw_message = None\<close>. A false \<open>raw_message\<close> (\<open>None\<close> or empty bytes) gives
  \<open>None\<close>; otherwise the bytes are wrapped in a \<open>DefaultListMessage\<close> and given to
  \<open>process_msg\<close>.
\<close>

record DefaultListMessage =
  msg_type :: string
  msg_data :: string
  msg_channel :: string

definition redis_list_get_one ::
  "(DefaultListMessage \<Rightarrow> 'env option) \<Rightarrow> ('h, 'cl) ListHandlerMixin \<Rightarrow> string option list
     \<Rightarrow> exn + 'env option" where
  "redis_list_get_one process_msg sub lpops =
     (if client sub = None then Inl (AssertionError StartSubscriberFirst)
      else if calls sub \<noteq> [] then Inl (AssertionError GetOneWithHandlers)
      else
        let raw_message = poll None lpops
        in case raw_message of
             None \<Rightarrow> Inr None
           | Some raw \<Rightarrow>
               if raw = [] then Inr None
               else Inr (process_msg \<lparr> msg_type = ''list'', msg_data = raw,
                                       msg_channel = name (list_sub sub) \<rparr>))"

text \<open>
  Redis, \<open>_ListHandlerMixin.__aiter__\<close>: an asynchronous generator, whose body runs
  when the iteration starts: two assertions, then for ever a polling (with the timeout
  5) and, when \<open>raw_message\<close> is true, a \<open>yield\<close> of what \<open>process_msg\<close> makes of the
  wrapped bytes. \<open>raw_message\<close> is set to \<open>None\<close> once, before the loop, and is kept
  from one round to the next. \<open>rounds\<close> holds the \<open>lpop\<close> results of the rounds that
  are observed; the result is what the generator yields in them, in order.
\<close>

fun redis_list_rounds ::
  "(DefaultListMessage \<Rightarrow> 'env option) \<Rightarrow> string \<Rightarrow> string option \<Rightarrow> string option list list
     \<Rightarrow> 'env option list" where
  "redis_list_rounds process_msg channel raw_message [] = []"
| "redis_list_rounds process_msg channel raw_message (lpops # rounds) =
     (let raw_message1 = poll raw_message lpops
      in case raw_message1 of
           None \<Rightarrow> redis_list_rounds process_msg channel raw_message1 rounds
         | Some raw \<Rightarrow>
             if raw = [] then redis_list_rounds process_msg channel raw_message1 rounds
             else process_msg \<lparr> msg_type = ''list'', msg_data = raw, msg_channel = channel \<rparr>
                    # redis_list_rounds process_msg channel raw_message1 rounds)"

definition redis_list_aiter ::
  "(DefaultListMessage \<Rightarrow> 'env option) \<Rightarrow> ('h, 'cl) ListHandlerMixin \<Rightarrow> string option list list
     \<Rightarrow> exn + 'env option list" where
  "redis_list_aiter process_msg sub rounds =
     (if client sub = None then Inl (AssertionError StartSubscriberFirst)
      else if calls sub \<noteq> [] then Inl (AssertionError IterWithHandlers)
      else Inr (redis_list_rounds process_msg (name (list_sub sub)) None rounds))"

text \<open>
  NATS, \<open>CoreSubscriber.get_one\<close>: one assertion; the fetch subscription is made on
  first use (\<open>subscribe\<close> of the client, a parameter, called with the subject and the
  queue; the extra options are left out) and kept;
  \<open>next_msg\<close> of the subscription returns a message or raises, and the client's
  \<open>TimeoutError\<close> gives \<open>None\<close>. The result comes with the subscriber as it is left.
\<close>

datatype 'r nats_fetch = NextMsg 'r | NatsTimeoutError | NatsRaises exn

record ('h, 'fs) CoreSubscriber = "'h SubscriberUsecase" +
  clear_subject :: string
  queue :: string
  fetch_sub :: "'fs option"

definition nats_get_one ::
  "('raw \<Rightarrow> 'env option) \<Rightarrow> (string \<Rightarrow> string \<Rightarrow> 'fs) \<Rightarrow> ('fs \<Rightarrow> 't \<Rightarrow> 'raw nats_fetch)
     \<Rightarrow> ('h, 'fs) CoreSubscriber \<Rightarrow> 't \<Rightarrow> exn + ('env option \<times> ('h, 'fs) CoreSubscriber)" where
  "nats_get_one process_msg subscribe next_msg sub timeout =
     (if calls sub \<noteq> [] then Inl (AssertionError GetOneWithHandlers)
      else
        let fs = (case fetch_sub sub of
                    None \<Rightarrow> subscribe (clear_subject sub) (queue sub)
                  | Some f \<Rightarrow> f);
            sub1 = sub\<lparr> fetch_sub := Some fs \<rparr>
        in case next_msg fs timeout of
             NatsTimeoutError \<Rightarrow> Inr (None, sub1)
           | NatsRaises e \<Rightarrow> Inl e
           | NextMsg raw_message \<Rightarrow> Inr (process_msg raw_message, sub1))"

text \<open>
  NATS, \<open>CoreSubscriber.__aiter__\<close>: an asynchronous generator, whose body runs when
  the iteration starts: one assertion, the fetch subscription as in \<open>get_one\<close>, then a
  \<open>yield\<close> of what \<open>process_msg\<close> makes of every message of \<open>fetch_sub.messages\<close>
  (\<open>messages\<close>: those the subscription delivers while it is observed). The result is
  what the generator yields, with the subscriber as it is left.
\<close>

definition nats_aiter ::
  "('raw \<Rightarrow> 'env option) \<Rightarrow> (string \<Rightarrow> string \<Rightarrow> 'fs) \<Rightarrow> ('fs \<Rightarrow> 'raw list)
     \<Rightarrow> ('h, 'fs) CoreSubscriber \<Rightarrow> exn + ('env option list \<times> ('h, 'fs) CoreSubscriber)" where
  "nats_aiter process_msg subscribe messages sub =
     (if calls sub \<noteq> [] then Inl (AssertionError IterWithHandlers)
      else
        let fs = (case fetch_sub sub of
                    None \<Rightarrow> subscribe (clear_subject sub) (queue sub)
                  | Some f \<Rightarrow> f);
            sub1 = sub\<lparr> fetch_sub := Some fs \<rparr>
        in Inr (map process_msg (messages fs), sub1))"

section \<open>Publishers\<close>

text \<open>
  Kafka, \<open>create_publisher\<close>: the options are built first; a batch publisher refuses a
  true key (\<open>if key:\<close>, that is a key that is neither \<open>None\<close> nor empty). The middlewares
  and the specification arguments are only passed on and are left out.
\<close>

record PublisherLogicOptions =
  opt_key :: "string option"
  opt_topic :: string
  opt_partition :: "int option"
  opt_headers :: "(string \<times> string) list option"
  opt_reply_to :: string

datatype kafka_publisher =
    SpecificationBatchPublisher PublisherLogicOptions
  | SpecificationDefaultPublisher PublisherLogicOptions

definition kafka_create_publisher ::
  "bool \<Rightarrow> string option \<Rightarrow> string \<Rightarrow> int option \<Rightarrow> (string \<times> string) list option \<Rightarrow> string
     \<Rightarrow> exn + kafka_publisher" where
  "kafka_create_publisher batch_arg key topic partition_arg headers reply_to =
     (let logic_options =
            \<lparr> opt_key = key, opt_topic = topic, opt_partition = partition_arg,
              opt_headers = headers, opt_reply_to = reply_to \<rparr>
      in if batch_arg
         then (if opt_truthy key then Inl (SetupError KeyWithBatchPublisher)
               else Inr (SpecificationBatchPublisher logic_options))
         else Inr (SpecificationDefaultPublisher logic_options))"

text \<open>
  Confluent publishers. \<open>LogicPublisher.__init__\<close> keeps the topic, the partition, the
  reply destination and the default headers (\<open>base_configs.headers or {}\<close>);
  \<open>DefaultPublisher\<close> adds the key. \<open>KafkaPublishCommand\<close> (not among the sources)
  keeps the arguments it is built from.
\<close>

record ConfluentPublisherBaseConfigs =
  pcfg_topic :: string
  pcfg_partition :: "int option"
  pcfg_reply_to :: string
  pcfg_headers :: "(string \<times> string) list option"
  pcfg_key :: "string option"

record LogicPublisher =
  pub_topic :: string
  pub_partition :: "int option"
  pub_reply_to :: string
  pub_headers :: "(string \<times> string) list"

record DefaultPublisher = LogicPublisher +
  pub_key :: "string option"

definition DefaultPublisher_init :: "ConfluentPublisherBaseConfigs \<Rightarrow> DefaultPublisher" where
  "DefaultPublisher_init base_configs =
     \<lparr> pub_topic = pcfg_topic base_configs,
       pub_partition = pcfg_partition base_configs,
       pub_reply_to = pcfg_reply_to base_configs,
       pub_headers = or_default (pcfg_headers base_configs) [],
       pub_key = pcfg_key base_configs \<rparr>"

definition BatchPublisher_init :: "ConfluentPublisherBaseConfigs \<Rightarrow> LogicPublisher" where
  "BatchPublisher_init base_configs =
     \<lparr> pub_topic = pcfg_topic base_configs,
       pub_partition = pcfg_partition base_configs,
       pub_reply_to = pcfg_reply_to base_configs,
       pub_headers = or_default (pcfg_headers base_configs) [] \<rparr>"

datatype PublishType = PUBLISH | REQUEST

record 'b KafkaPublishCommand =
  cmd_messages :: "'b list"
  cmd_topic :: string
  cmd_key :: "string option"
  cmd_partition :: "int option"
  cmd_reply_to :: string
  cmd_headers :: "(string \<times> string) list"
  cmd_correlation_id :: string
  cmd_timestamp_ms :: "int option"
  cmd_no_confirm :: bool
  cmd_publish_type :: PublishType

text \<open>
  \<open>DefaultPublisher.publish\<close> and \<open>BatchPublisher.publish\<close> build the command and
  give it to \<open>_basic_publish\<close> or \<open>_basic_publish_batch\<close> (not among the sources, the
  parameter \<open>send\<close>). \<open>gen_cor_id\<close> is the identifier \<open>gen_cor_id()\<close> returns when
  it is called.
\<close>

definition DefaultPublisher_publish_command ::
  "string \<Rightarrow> DefaultPublisher \<Rightarrow> 'b \<Rightarrow> string \<Rightarrow> string option \<Rightarrow> int option \<Rightarrow> int option
     \<Rightarrow> (string \<times> string) list option \<Rightarrow> string option \<Rightarrow> string \<Rightarrow> bool
     \<Rightarrow> 'b KafkaPublishCommand" where
  "DefaultPublisher_publish_command gen_cor_id pub message topic key partition_arg timestamp_ms
       headers correlation_id reply_to no_confirm =
     \<lparr> cmd_messages = [message],
       cmd_topic = str_or topic (pub_topic pub),
       cmd_key = opt_or key (pub_key pub),
       cmd_partition = int_or partition_arg (pub_partition pub),
       cmd_reply_to = str_or reply_to (pub_reply_to pub),
       cmd_headers = dict_or (pub_headers pub) (or_default headers []),
       cmd_correlation_id = or_default correlation_id gen_cor_id,
       cmd_timestamp_ms = timestamp_ms,
       cmd_no_confirm = no_confirm,
       cmd_publish_type = PUBLISH \<rparr>"

definition DefaultPublisher_publish ::
  "('b KafkaPublishCommand \<Rightarrow> 'r) \<Rightarrow> string \<Rightarrow> DefaultPublisher \<Rightarrow> 'b \<Rightarrow> string
     \<Rightarrow> string option \<Rightarrow> int option \<Rightarrow> int option \<Rightarrow> (string \<times> string) list option
     \<Rightarrow> string option \<Rightarrow> string \<Rightarrow> bool \<Rightarrow> 'r" where
  "DefaultPublisher_publish send gen_cor_id pub message topic key partition_arg timestamp_ms
       headers correlation_id reply_to no_confirm =
     send (DefaultPublisher_publish_command gen_cor_id pub message topic key partition_arg
             timestamp_ms headers correlation_id reply_to no_confirm)"

definition BatchPublisher_publish_command ::
  "string \<Rightarrow> LogicPublisher \<Rightarrow> 'b list \<Rightarrow> string \<Rightarrow> int option \<Rightarrow> int option
     \<Rightarrow> (string \<times> string) list option \<Rightarrow> string option \<Rightarrow> string \<Rightarrow> bool
     \<Rightarrow> 'b KafkaPublishCommand" where
  "BatchPublisher_publish_command gen_cor_id pub messages topic partition_arg timestamp_ms
       headers correlation_id reply_to no_confirm =
     \<lparr> cmd_messages = messages,
       cmd_topic = str_or topic (pub_topic pub),
       cmd_key = None,
       cmd_partition = int_or partition_arg (pub_partition pub),
       cmd_reply_to = str_or reply_to (pub_reply_to pub),
       cmd_headers = dict_or (pub_headers pub) (or_default headers []),
       cmd_correlation_id = or_default correlation_id gen_cor_id,
       cmd_timestamp_ms = timestamp_ms,
       cmd_no_confirm = no_confirm,
       cmd_publish_type = PUBLISH \<rparr>"

definition BatchPublisher_publish ::
  "('b KafkaPublishCommand \<Rightarrow> 'r) \<Rightarrow> string \<Rightarrow> LogicPublisher \<Rightarrow> 'b list \<Rightarrow> string
     \<Rightarrow> int option \<Rightarrow> int option \<Rightarrow> (string \<times> string) list option
     \<Rightarrow> string option \<Rightarrow> string \<Rightarrow> bool \<Rightarrow> 'r" where
  "BatchPublisher_publish send gen_cor_id pub messages topic partition_arg timestamp_ms
       headers correlation_id reply_to no_confirm =
     send (BatchPublisher_publish_command gen_cor_id pub messages topic partition_arg
             timestamp_ms headers correlation_id reply_to no_confirm)"

section \<open>Theorems\<close>

subsection \<open>Destination renaming\<close>

text \<open>
  C6, as the code has it: for every subscriber, \<open>add_prefix\<close> with the empty string
  leaves everything unchanged, and one call with \<open>p\<close> prepends \<open>p\<close> to every declared
  topic, to the topic of every declared partition (leaving its other fields) and to the
  Redis list name. Prefixes compose in call order: \<open>add_prefix p\<close> followed by
  \<open>add_prefix q\<close> is \<open>add_prefix\<close> of \<open>q\<close> followed by \<open>p\<close>, so \<open>"a"\<close> then \<open>"b"\<close>
  prepends \<open>"ba"\<close>. The pattern of a Kafka subscriber is not renamed. Stated for the
  three \<open>add_prefix\<close> of the sources (Confluent, Kafka, Redis list).
\<close>

theorem add_prefix_empty_and_compose:
  "confluent_add_prefix '''' s = s
   \<and> kafka_add_prefix '''' k = k
   \<and> redis_list_add_prefix '''' l = l
   \<and> topics (confluent_add_prefix p s) = map (\<lambda>t. p @ t) (topics s)
   \<and> partitions (confluent_add_prefix p s)
       = map (\<lambda>x. x\<lparr> tp_topic := p @ tp_topic x \<rparr>) (partitions s)
   \<and> topics (kafka_add_prefix p k) = map (\<lambda>t. p @ t) (topics k)
   \<and> partitions (kafka_add_prefix p k)
       = map (\<lambda>x. AIOTopicPartition (p @ aio_topic x) (aio_partition x)) (partitions k)
   \<and> kafka_pattern (kafka_add_prefix p k) = kafka_pattern k
   \<and> redis_list_add_prefix p l = l\<lparr> name := p @ name l \<rparr>
   \<and> confluent_add_prefix q (confluent_add_prefix p s) = confluent_add_prefix (q @ p) s
   \<and> kafka_add_prefix q (kafka_add_prefix p k) = kafka_add_prefix (q @ p) k
   \<and> redis_list_add_prefix q (redis_list_add_prefix p l) = redis_list_add_prefix (q @ p) l
   \<and> topics (confluent_add_prefix ''b'' (confluent_add_prefix ''a'' s))
       = map (\<lambda>t. ''ba'' @ t) (topics s)
   \<and> map tp_topic (partitions (confluent_add_prefix ''b'' (confluent_add_prefix ''a'' s)))
       = map (\<lambda>x. ''ba'' @ tp_topic x) (partitions s)
   \<and> topics (kafka_add_prefix ''b'' (kafka_add_prefix ''a'' k))
       = map (\<lambda>t. ''ba'' @ t) (topics k)
   \<and> map aio_topic (partitions (kafka_add_prefix ''b'' (kafka_add_prefix ''a'' k)))
       = map (\<lambda>x. ''ba'' @ aio_topic x) (partitions k)
   \<and> name (redis_list_add_prefix ''b'' (redis_list_add_prefix ''a'' l)) = ''ba'' @ name l"
  by (simp add: confluent_add_prefix_def kafka_add_prefix_def redis_list_add_prefix_def
      comp_def map_idI)

text \<open>
  C6 as stated fails for a Kafka subscriber that declares its destination by a pattern:
  the name it declares (\<open>topic_names\<close>) is the pattern, before and after \<open>add_prefix\<close>
  with \<open>"a"\<close> and then \<open>"b"\<close>, and \<open>"ba"\<close> is not prepended to it.
\<close>

theorem kafka_pattern_not_prefixed:
  "kafka_topic_names
     \<lparr> calls = [''handler''], topics = [], partitions = [], consumer = None :: string option,
       builder = None, tasks = [], kafka_pattern = Some ''logs.*'' \<rparr>
     = [''logs.*'']
   \<and> kafka_topic_names (kafka_add_prefix ''b'' (kafka_add_prefix ''a''
     \<lparr> calls = [''handler''], topics = [], partitions = [], consumer = None :: string option,
       builder = None, tasks = [], kafka_pattern = Some ''logs.*'' \<rparr>))
     = [''logs.*'']
   \<and> [''logs.*''] \<noteq> [''balogs.*'']"
  by (simp add: kafka_topic_names_def kafka_add_prefix_def)

subsection \<open>The consumption loop\<close>

text \<open>\<open>K\<close> transient failures in a row: \<open>K\<close> sleeps, and the loop goes on.\<close>

lemma confluent_loop_failures:
  "confluent_loop st (replicate K (True, Raises KafkaException) @ rest)
   = confluent_loop (st\<lparr> connected := (connected st \<and> K = 0),
                          events := events st @ replicate K (Sleep 5) \<rparr>) rest"
proof (induction K arbitrary: st)
  case 0
  then show ?case by simp
next
  case (Suc K)
  show ?case by (simp add: Suc.IH replicate_app_Cons_same)
qed

lemma kafka_loop_failures:
  "kafka_loop truthy st (replicate K (True, Raises KafkaError) @ rest)
   = kafka_loop truthy (st\<lparr> connected := (connected st \<and> K = 0),
                          events := events st @ replicate K (Sleep 5) \<rparr>) rest"
proof (induction K arbitrary: st)
  case 0
  then show ?case by simp
next
  case (Suc K)
  show ?case by (simp add: Suc.IH replicate_app_Cons_same)
qed

text \<open>
  C1: in every run of the consumption loop in which the fetch raises the transient broker
  error in the first \<open>K\<close> passes and then succeeds, the loop is degraded after the
  failures (\<open>connected\<close> is false as soon as \<open>K > 0\<close>), has slept 5 time units after
  each failed fetch and at no other time (exactly \<open>K\<close> sleeps), has not terminated, and
  hands the fetched message to \<open>consume_one\<close>; it then continues, connected again, with
  whatever the script holds next. Stated for the Confluent loop (\<open>KafkaException\<close>) and
  for the Kafka loop (\<open>KafkaError\<close>).
\<close>

theorem consume_transient_recovery:
  assumes "consumer sub = Some c" and "consumer ksub = Some kc" and "truthy km"
  shows
   "confluent_loop \<lparr> connected = True, events = [] \<rparr> (replicate K (True, Raises KafkaException))
      = (Pending, \<lparr> connected = (K = 0), events = replicate K (Sleep 5) \<rparr>)
    \<and> confluent_loop \<lparr> connected = True, events = [] \<rparr>
        (fail_then_fetch KafkaException K (Some m) @ rest)
      = confluent_loop \<lparr> connected = True, events = replicate K (Sleep 5) @ [ConsumeOne m] \<rparr> rest
    \<and> confluent_consume sub (fail_then_fetch KafkaException K (Some m))
      = (Pending, replicate K (Sleep 5) @ [ConsumeOne m])
    \<and> kafka_loop truthy \<lparr> connected = True, events = [] \<rparr> (replicate K (True, Raises KafkaError))
      = (Pending, \<lparr> connected = (K = 0), events = replicate K (Sleep 5) \<rparr>)
    \<and> kafka_loop truthy \<lparr> connected = True, events = [] \<rparr>
        (fail_then_fetch KafkaError K km @ krest)
      = kafka_loop truthy \<lparr> connected = True, events = replicate K (Sleep 5) @ [ConsumeOne km] \<rparr> krest
    \<and> kafka_consume truthy ksub (fail_then_fetch KafkaError K km)
      = (Pending, replicate K (Sleep 5) @ [ConsumeOne km])"
proof -
  have c1: "confluent_loop \<lparr> connected = True, events = [] \<rparr> (replicate K (True, Raises KafkaException))
      = (Pending, \<lparr> connected = (K = 0), events = replicate K (Sleep 5) \<rparr>)"
    using confluent_loop_failures [of "\<lparr> connected = True, events = [] \<rparr>" K "[]"] by simp
  have c2: "confluent_loop \<lparr> connected = True, events = [] \<rparr>
        (fail_then_fetch KafkaException K (Some m) @ rest)
      = confluent_loop \<lparr> connected = True, events = replicate K (Sleep 5) @ [ConsumeOne m] \<rparr> rest" for rest
    by (simp add: fail_then_fetch_def confluent_loop_failures)
  have c3: "confluent_consume sub (fail_then_fetch KafkaException K (Some m))
      = (Pending, replicate K (Sleep 5) @ [ConsumeOne m])"
    using c2 [of "[]"] assms(1) by (simp add: confluent_consume_def)
  have k1: "kafka_loop truthy \<lparr> connected = True, events = [] \<rparr> (replicate K (True, Raises KafkaError))
      = (Pending, \<lparr> connected = (K = 0), events = replicate K (Sleep 5) \<rparr>)"
    using kafka_loop_failures [of truthy "\<lparr> connected = True, events = [] \<rparr>" K "[]"] by simp
  have k2: "kafka_loop truthy \<lparr> connected = True, events = [] \<rparr>
        (fail_then_fetch KafkaError K km @ krest)
      = kafka_loop truthy \<lparr> connected = True, events = replicate K (Sleep 5) @ [ConsumeOne km] \<rparr> krest" for krest
    using assms(3) by (simp add: fail_then_fetch_def kafka_loop_failures)
  have k3: "kafka_consume truthy ksub (fail_then_fetch KafkaError K km)
      = (Pending, replicate K (Sleep 5) @ [ConsumeOne km])"
    using k2 [of "[]"] assms(2) by (simp add: kafka_consume_def)
  from c1 c2 c3 k1 k2 k3 show ?thesis by blast
qed


theorem consume_transient_recovery_witness:
  "consumer \<lparr> calls = [''handler''], topics = [''in''], partitions = [] :: TopicPartition list,
               consumer = Some ''consumer'', builder = None, tasks = [ConsumeTask] \<rparr> = Some ''consumer''
   \<and> consumer \<lparr> calls = [''handler''], topics = [''in''], partitions = [] :: AIOTopicPartition list,
               consumer = Some ''consumer'', builder = None, tasks = [ConsumeTask] \<rparr> = Some ''consumer''
   \<and> tuple_truthy [''record'']
   \<and> confluent_loop \<lparr> connected = True, events = [] \<rparr>
        (replicate 2 (True, Raises KafkaException))
      = (Pending, \<lparr> connected = False, events = [Sleep 5, Sleep 5 :: string event] \<rparr>)
   \<and> confluent_consume
        \<lparr> calls = [''handler''], topics = [''in''], partitions = [] :: TopicPartition list,
          consumer = Some ''consumer'', builder = None, tasks = [ConsumeTask] \<rparr>
        [(True, Raises KafkaException), (True, Raises KafkaException), (True, Returns (Some ''msg''))]
      = (Pending, [Sleep 5, Sleep 5, ConsumeOne ''msg''])
   \<and> kafka_consume tuple_truthy
        \<lparr> calls = [''handler''], topics = [''in''], partitions = [] :: AIOTopicPartition list,
          consumer = Some ''consumer'', builder = None, tasks = [ConsumeTask] \<rparr>
        [(True, Raises KafkaError), (True, Raises KafkaError), (True, Returns [''record''])]
      = (Pending, [Sleep 5, Sleep 5, ConsumeOne [''record'']])"
proof -
  let ?s = "\<lparr> calls = [''handler''], topics = [''in''], partitions = [] :: TopicPartition list,
               consumer = Some ''consumer'', builder = None, tasks = [ConsumeTask] \<rparr>"
  let ?k = "\<lparr> calls = [''handler''], topics = [''in''], partitions = [] :: AIOTopicPartition list,
               consumer = Some ''consumer'', builder = None, tasks = [ConsumeTask] \<rparr>"
  have h1: "consumer ?s = Some ''consumer''" by simp
  have h2: "consumer ?k = Some ''consumer''" by simp
  have h3: "tuple_truthy [''record'']" by (simp add: tuple_truthy_def)
  show ?thesis
    using consume_transient_recovery [where sub = "?s" and ksub = "?k" and truthy = tuple_truthy
        and km = "[''record'']" and K = 2 and m = "''msg''" and rest = "[]" and krest = "[]"
        and c = "''consumer''" and kc = "''consumer''"] h3
    by (simp add: fail_then_fetch_def numeral_2_eq_2)
qed

text \<open>Passes that keep the Kafka loop going leave it pending, and it runs on from there.\<close>

lemma kafka_loop_keeps_going:
  "list_all keeps_going pre \<Longrightarrow>
     fst (kafka_loop truthy st pre) = Pending
     \<and> kafka_loop truthy st (pre @ rest) = kafka_loop truthy (snd (kafka_loop truthy st pre)) rest"
proof (induction pre arbitrary: st)
  case Nil
  show ?case by simp
next
  case (Cons p pre)
  obtain running f where p: "p = (running, f)" by (cases p)
  from Cons.prems p have tl: "list_all keeps_going pre" and hd: "keeps_going (running, f)"
    by simp_all
  show ?case
  proof (cases f)
    case (Returns msg)
    with hd p Cons.IH [OF tl] show ?thesis by (simp add: Let_def)
  next
    case (Raises e)
    with hd p Cons.IH [OF tl] show ?thesis by simp
  qed
qed

lemma kafka_loop_never_raises_stopped:
  "fst (kafka_loop truthy st script) \<noteq> Raised ConsumerStoppedError"
proof (induction script arbitrary: st)
  case Nil
  show ?case by simp
next
  case (Cons p script)
  obtain running f where p: "p = (running, f)" by (cases p)
  show ?case
  proof (cases f)
    case (Returns msg)
    with p Cons.IH show ?thesis by (simp add: Let_def)
  next
    case (Raises e)
    with p Cons.IH show ?thesis by simp
  qed
qed

text \<open>
  C2, as the code has it: in the Kafka loop a terminal broker error
  (\<open>ConsumerStoppedError\<close>, the client reports itself stopped) ends the loop cleanly.
  After any passes that kept the loop going, the coroutine returns with the trace it had,
  nothing that follows is fetched, and in no run at all does \<open>ConsumerStoppedError\<close>
  leave the coroutine. The Confluent loop has no branch for a terminal error: it retries
  \<open>KafkaException\<close> and lets every other exception leave the coroutine.
\<close>

theorem kafka_consumer_stopped_returns:
  assumes "consumer sub = Some c" and "list_all keeps_going pre" and "e \<noteq> KafkaException"
  shows "kafka_consume truthy sub (pre @ (running, Raises ConsumerStoppedError) # rest)
           = (Returned, snd (kafka_consume truthy sub pre))
         \<and> fst (kafka_consume truthy sub pre) = Pending
         \<and> fst (kafka_consume truthy sub script) \<noteq> Raised ConsumerStoppedError
         \<and> confluent_loop cst ((True, Raises e) # crest) = (Raised e, cst)"
proof -
  let ?st = "\<lparr> connected = True, events = [] \<rparr>"
  have a: "kafka_loop truthy ?st (pre @ (running, Raises ConsumerStoppedError) # rest)
           = (Returned, snd (kafka_loop truthy ?st pre))"
    using kafka_loop_keeps_going [OF assms(2), of truthy ?st] by simp
  have b: "fst (kafka_loop truthy ?st pre) = Pending"
    using kafka_loop_keeps_going [OF assms(2), of truthy ?st] by simp
  have c: "fst (kafka_loop truthy ?st script) \<noteq> Raised ConsumerStoppedError"
    by (rule kafka_loop_never_raises_stopped)
  have d: "confluent_loop cst ((True, Raises e) # crest) = (Raised e, cst)"
    using assms(3) by simp
  from a b c d assms(1) show ?thesis
    by (simp add: kafka_consume_def Let_def)
qed

theorem kafka_consumer_stopped_returns_witness:
  "consumer \<lparr> calls = [''handler''], topics = [''in''], partitions = [] :: AIOTopicPartition list,
               consumer = Some ''consumer'', builder = None, tasks = [ConsumeTask] \<rparr> = Some ''consumer''
   \<and> list_all keeps_going [(True, Returns [''a'']), (True, Raises KafkaError), (True, Returns [])]
   \<and> OtherException \<noteq> KafkaException
   \<and> kafka_consume tuple_truthy
        \<lparr> calls = [''handler''], topics = [''in''], partitions = [] :: AIOTopicPartition list,
          consumer = Some ''consumer'', builder = None, tasks = [ConsumeTask] \<rparr>
        [(True, Returns [''a'']), (True, Raises KafkaError), (True, Returns []),
         (True, Raises ConsumerStoppedError), (True, Returns [''b''])]
      = (Returned, [ConsumeOne [''a''], Sleep 5])
   \<and> confluent_loop \<lparr> connected = True, events = [] \<rparr>
        [(True, Raises OtherException), (True, Returns (Some ''m''))]
      = (Raised OtherException, \<lparr> connected = True, events = [] \<rparr>)"
proof -
  let ?k = "\<lparr> calls = [''handler''], topics = [''in''], partitions = [] :: AIOTopicPartition list,
               consumer = Some ''consumer'', builder = None, tasks = [ConsumeTask] \<rparr>"
  let ?pre = "[(True, Returns [''a'']), (True, Raises KafkaError), (True, Returns [])]"
  have h1: "consumer ?k = Some ''consumer''" by simp
  have h2: "list_all keeps_going ?pre" by simp
  have h3: "OtherException \<noteq> KafkaException" by simp
  show ?thesis
    using kafka_consumer_stopped_returns [OF h1 h2 h3, where truthy = tuple_truthy
        and running = True and rest = "[(True, Returns [''b''])]" and script = "[]"
        and cst = "\<lparr> connected = True, events = [] \<rparr>"
        and crest = "[(True, Returns (Some ''m''))]"]
    by (simp add: kafka_consume_def tuple_truthy_def)
qed

text \<open>
  C2 as stated fails on the Confluent loop: an exception other than \<open>KafkaException\<close>
  leaves the coroutine, and \<open>KafkaException\<close> is retried, so no error ends that loop
  cleanly.
\<close>

theorem confluent_no_terminal_branch:
  "confluent_consume
     \<lparr> calls = [''handler''], topics = [''in''], partitions = [] :: TopicPartition list,
       consumer = Some ''consumer'', builder = None, tasks = [ConsumeTask] \<rparr>
     [(True, Raises OtherException), (True, Returns (Some ''m''))]
   = (Raised OtherException, [])
   \<and> confluent_consume
     \<lparr> calls = [''handler''], topics = [''in''], partitions = [] :: TopicPartition list,
       consumer = Some ''consumer'', builder = None, tasks = [ConsumeTask] \<rparr>
     [(True, Raises ConsumerStoppedError), (True, Returns (Some ''m''))]
   = (Raised ConsumerStoppedError, [])
   \<and> confluent_consume
     \<lparr> calls = [''handler''], topics = [''in''], partitions = [] :: TopicPartition list,
       consumer = Some ''consumer'', builder = None, tasks = [ConsumeTask] \<rparr>
     [(True, Raises KafkaException), (True, Returns (Some ''m''))]
   = (Pending, [Sleep 5, ConsumeOne ''m''])"
  by (simp add: confluent_consume_def)

subsection \<open>Subscriber factories\<close>

text \<open>
  C3 asks that fan-out (\<open>max_workers > 1\<close>) together with a policy that is not
  auto-commit be rejected with a setup error. The test of the source compares
  \<open>AckPolicy.ACK_FIRST\<close> with itself and so never fires: with \<open>REJECT_ON_ERROR\<close> or
  \<open>MANUAL\<close> and two workers the check passes and the factory returns the concurrent
  subscriber.
\<close>

theorem max_workers_with_manual_policy_accepted:
  "confluent_validate_input_for_misconfigure (Some REJECT_ON_ERROR) None None 2 = Inr ()
   \<and> confluent_validate_input_for_misconfigure (Some MANUAL) None None 2 = Inr ()
   \<and> (confluent_create_subscriber [''in''] [] False None None [] None (Some REJECT_ON_ERROR)
         None 2 False :: exn + unit confluent_subscriber)
     = Inr (SpecificationConcurrentDefaultSubscriber
              \<lparr> ack_policy = Some REJECT_ON_ERROR, default_parser = None, default_decoder = None,
                cfg_topics = [''in''], cfg_partitions = [], cfg_group_id = None,
                cfg_connection_data = [], cfg_no_reply = False \<rparr> 2)"
  by (simp add: confluent_validate_input_for_misconfigure_def confluent_create_subscriber_def)



subsection \<open>Publisher factory\<close>

text \<open>
  C8: a Kafka publisher configuration with \<open>batch\<close> true and a non-empty key is refused
  with a setup error by \<open>create_publisher\<close> (which sends nothing); with \<open>batch\<close> false
  every key is accepted and kept.
\<close>

theorem batch_publisher_refuses_key:
  assumes "k \<noteq> []"
  shows "kafka_create_publisher True (Some k) topic part headers reply_to
           = Inl (SetupError KeyWithBatchPublisher)
         \<and> kafka_create_publisher False key topic part headers reply_to
           = Inr (SpecificationDefaultPublisher
                    \<lparr> opt_key = key, opt_topic = topic, opt_partition = part,
                      opt_headers = headers, opt_reply_to = reply_to \<rparr>)"
  using assms by (simp add: kafka_create_publisher_def)

theorem batch_publisher_refuses_key_witness:
  "''k'' \<noteq> []
   \<and> kafka_create_publisher True (Some ''k'') ''out'' None None ''''
       = Inl (SetupError KeyWithBatchPublisher)
   \<and> kafka_create_publisher False (Some ''k'') ''out'' None None ''''
       = Inr (SpecificationDefaultPublisher
                \<lparr> opt_key = Some ''k'', opt_topic = ''out'', opt_partition = None,
                  opt_headers = None, opt_reply_to = '''' \<rparr>)"
proof -
  have h: "''k'' \<noteq> []" by simp
  show ?thesis
    using batch_publisher_refuses_key [OF h, of "''out''" None None "''''" "Some ''k''"] by simp
qed

subsection \<open>Subscriber constructors\<close>

text \<open>
  C10: every Redis list subscriber (single, batch and concurrent) is constructed with the
  acknowledgment policy \<open>DO_NOTHING\<close>, whatever policy its options held: the
  constructors overwrite it without a test, so two option sets that differ in the policy
  alone give the same subscriber.
\<close>

theorem redis_list_subscribers_ignore_ack_policy:
  "ack_policy (configs (ListSubscriber_init l cfg)) = Some DO_NOTHING
   \<and> ack_policy (configs (BatchListSubscriber_init cfg l)) = Some DO_NOTHING
   \<and> ack_policy (configs (fst (ConcurrentListSubscriber_init cfg l w))) = Some DO_NOTHING
   \<and> ListSubscriber_init l (cfg\<lparr> ack_policy := p \<rparr>) = ListSubscriber_init l cfg
   \<and> BatchListSubscriber_init (cfg\<lparr> ack_policy := p \<rparr>) l = BatchListSubscriber_init cfg l
   \<and> ConcurrentListSubscriber_init (cfg\<lparr> ack_policy := p \<rparr>) l w
       = ConcurrentListSubscriber_init cfg l w"
  by (simp add: ListSubscriber_init_def BatchListSubscriber_init_def
      ConcurrentListSubscriber_init_def ListHandlerMixin_init_def)

text \<open>
  C4, as the code has it: under \<open>DO_NOTHING\<close> the policy engine invokes no
  acknowledgment primitive, before the handler or after it, whatever the handler's
  outcome. The parser configuration follows the policy the other way round from what the
  claim says: the NATS core subscriber builds its parser with acknowledgment disabled
  exactly when the policy is not \<open>DO_NOTHING\<close>, and the Confluent subscribers build
  theirs manual exactly when the policy is not \<open>ACK_FIRST\<close>.
\<close>

theorem parser_follows_ack_policy:
  "pre_handler DO_NOTHING = NoAction
   \<and> post_handler DO_NOTHING outcome = NoAction
   \<and> default_parser (snd (CoreSubscriber_init q ncfg))
       = Some (parse_message \<lparr> pattern = subject ncfg,
                                is_ack_disabled = (ack_policy ncfg \<noteq> Some DO_NOTHING) \<rparr>)
   \<and> default_decoder (snd (CoreSubscriber_init q ncfg))
       = Some (decode_message \<lparr> pattern = subject ncfg,
                                 is_ack_disabled = (ack_policy ncfg \<noteq> Some DO_NOTHING) \<rparr>)
   \<and> is_manual (fst (confluent_DefaultSubscriber_init opts)) = (ack_policy opts \<noteq> Some ACK_FIRST)
   \<and> is_manual (fst (confluent_BatchSubscriber_init opts)) = (ack_policy opts \<noteq> Some ACK_FIRST)"
  by (simp add: CoreSubscriber_init_def confluent_DefaultSubscriber_init_def
      confluent_BatchSubscriber_init_def Let_def)

text \<open>
  C4 as stated fails: under \<open>REJECT_ON_ERROR\<close>, a policy other than \<open>DO_NOTHING\<close>, the
  NATS core subscriber's parser is built with acknowledgment disabled, and under
  \<open>DO_NOTHING\<close> it is not; under \<open>ACK_FIRST\<close> the Confluent parser is not manual.
\<close>

theorem nats_parser_disables_ack_under_reject_on_error:
  "default_parser (snd (CoreSubscriber_init ''workers''
       \<lparr> ack_policy = Some REJECT_ON_ERROR, default_parser = None, default_decoder = None,
         subject = ''orders'' \<rparr>))
     = Some (parse_message \<lparr> pattern = ''orders'', is_ack_disabled = True \<rparr>)
   \<and> default_parser (snd (CoreSubscriber_init ''workers''
       \<lparr> ack_policy = Some DO_NOTHING, default_parser = None, default_decoder = None,
         subject = ''orders'' \<rparr>))
     = Some (parse_message \<lparr> pattern = ''orders'', is_ack_disabled = False \<rparr>)
   \<and> is_manual (fst (confluent_DefaultSubscriber_init
       \<lparr> ack_policy = Some ACK_FIRST, default_parser = None, default_decoder = None \<rparr>)) = False"
  by (simp add: CoreSubscriber_init_def confluent_DefaultSubscriber_init_def Let_def)

subsection \<open>Pull-style access\<close>

text \<open>What a polling leaves in \<open>raw_message\<close>: the first result of \<open>lpop\<close> that is not \<open>None\<close>.\<close>

lemma poll_first_popped: "poll before (replicate n None @ Some raw # rest) = Some raw"
  by (induction n arbitrary: before) simp_all

lemma poll_nothing_popped: "poll None (replicate n None) = None"
  by (induction n) simp_all

lemma redis_list_rounds_yields:
  "[] \<notin> set raws \<Longrightarrow>
     redis_list_rounds process_msg channel before (map (\<lambda>raw. replicate n None @ [Some raw]) raws)
       = map (\<lambda>raw. process_msg \<lparr> msg_type = ''list'', msg_data = raw, msg_channel = channel \<rparr>) raws"
proof (induction raws arbitrary: before)
  case Nil
  show ?case by simp
next
  case (Cons raw raws)
  from Cons.prems have ne: "raw \<noteq> []" and tl: "[] \<notin> set raws" by auto
  have p: "poll before (replicate n None @ [Some raw]) = Some raw"
    by (rule poll_first_popped)
  show ?case using ne p Cons.IH [OF tl] by simp
qed

text \<open>
  C5: on a subscriber with registered handlers (\<open>calls\<close> not empty) \<open>get_one\<close> and the
  iterator fail when they are used, with the assertion error of the misuse (Confluent
  and Redis assert first that the subscriber was started), while starting such a
  subscriber does not fail for its handlers: when the builder, the parser's setup, the
  client's start and the base class's start succeed, so does \<open>start\<close>. On a started
  subscriber without handlers \<open>get_one\<close> takes one raw message from the broker client
  and returns what \<open>process_msg\<close> (parse and decode) makes of it (for Redis the first
  value \<open>lpop\<close> gives that is not \<open>None\<close>), or the empty result \<open>None\<close> when the client
  gave nothing within the timeout; the iterator yields what \<open>process_msg\<close> makes of each
  message the client gives. Stated for the Confluent, Redis list and NATS core
  subscribers (the Confluent subscriber of the sources has no iterator of its own).
\<close>

theorem get_one_excludes_handlers:
  assumes "calls hc \<noteq> []" and "calls hr \<noteq> []" and "calls hn \<noteq> []"
      and "builder hc = Some b" and "b (topics hc) (partitions hc) = Inr built"
      and "parser_setup built = Inr ()" and "consumer_start built = Inr ()"
      and "base_start (hc\<lparr> consumer := Some built \<rparr>) = Inr based"
      and "calls pc = []" and "consumer pc = Some c"
      and "calls pr = []" and "client pr = Some rc"
      and "calls pn = []"
      and "fs = (case fetch_sub pn of
                   None \<Rightarrow> subscribe (clear_subject pn) (queue pn)
                 | Some f \<Rightarrow> f)"
      and "next_arrives fs ntimeout = NextMsg raw_message"
      and "next_times_out fs ntimeout = NatsTimeoutError"
      and "raw \<noteq> []" and "[] \<notin> set raws"
  shows "confluent_get_one cprocess getone hc timeout
           = Inl (AssertionError (if consumer hc = None then StartSubscriberFirst
                                  else GetOneWithHandlers))
         \<and> redis_list_get_one rprocess hr lpops
           = Inl (AssertionError (if client hr = None then StartSubscriberFirst
                                  else GetOneWithHandlers))
         \<and> nats_get_one nprocess subscribe next_msg hn ntimeout
           = Inl (AssertionError GetOneWithHandlers)
         \<and> redis_list_aiter rprocess hr rounds
           = Inl (AssertionError (if client hr = None then StartSubscriberFirst
                                  else IterWithHandlers))
         \<and> nats_aiter nprocess subscribe messages hn
           = Inl (AssertionError IterWithHandlers)
         \<and> confluent_start parser_setup consumer_start base_start hc
           = Inr (if calls based \<noteq> [] then based\<lparr> tasks := tasks based @ [ConsumeTask] \<rparr>
                  else based)
         \<and> confluent_get_one cprocess getone pc timeout = Inr (cprocess (getone c timeout))
         \<and> redis_list_get_one rprocess pr (replicate n None @ Some raw # rest)
           = Inr (rprocess \<lparr> msg_type = ''list'', msg_data = raw,
                             msg_channel = name (list_sub pr) \<rparr>)
         \<and> redis_list_get_one rprocess pr (replicate n None @ Some [] # rest) = Inr None
         \<and> redis_list_get_one rprocess pr (replicate n None) = Inr None
         \<and> nats_get_one nprocess subscribe next_arrives pn ntimeout
           = Inr (nprocess raw_message, pn\<lparr> fetch_sub := Some fs \<rparr>)
         \<and> nats_get_one nprocess subscribe next_times_out pn ntimeout
           = Inr (None, pn\<lparr> fetch_sub := Some fs \<rparr>)
         \<and> redis_list_aiter rprocess pr (map (\<lambda>raw. replicate n None @ [Some raw]) raws)
           = Inr (map (\<lambda>raw. rprocess \<lparr> msg_type = ''list'', msg_data = raw,
                                          msg_channel = name (list_sub pr) \<rparr>) raws)
         \<and> nats_aiter nprocess subscribe messages pn
           = Inr (map nprocess (messages fs), pn\<lparr> fetch_sub := Some fs \<rparr>)"
proof -
  have c_h: "confluent_get_one cprocess getone hc timeout
           = Inl (AssertionError (if consumer hc = None then StartSubscriberFirst
                                  else GetOneWithHandlers))"
    using assms(1) by (simp add: confluent_get_one_def split: option.splits)
  have r_h: "redis_list_get_one rprocess hr lpops
           = Inl (AssertionError (if client hr = None then StartSubscriberFirst
                                  else GetOneWithHandlers))"
    using assms(2) by (simp add: redis_list_get_one_def)
  have n_h: "nats_get_one nprocess subscribe next_msg hn ntimeout
           = Inl (AssertionError GetOneWithHandlers)"
    using assms(3) by (simp add: nats_get_one_def)
  have r_i: "redis_list_aiter rprocess hr rounds
           = Inl (AssertionError (if client hr = None then StartSubscriberFirst
                                  else IterWithHandlers))"
    using assms(2) by (simp add: redis_list_aiter_def)
  have n_i: "nats_aiter nprocess subscribe messages hn = Inl (AssertionError IterWithHandlers)"
    using assms(3) by (simp add: nats_aiter_def)
  have st: "confluent_start parser_setup consumer_start base_start hc
           = Inr (if calls based \<noteq> [] then based\<lparr> tasks := tasks based @ [ConsumeTask] \<rparr>
                  else based)"
    using assms(4,5,6,7,8) by (simp add: confluent_start_def Let_def)
  have c_p: "confluent_get_one cprocess getone pc timeout = Inr (cprocess (getone c timeout))"
    using assms(9,10) by (simp add: confluent_get_one_def)
  have r_p1: "redis_list_get_one rprocess pr (replicate n None @ Some raw # rest)
           = Inr (rprocess \<lparr> msg_type = ''list'', msg_data = raw,
                             msg_channel = name (list_sub pr) \<rparr>)"
    using assms(11,12,17) by (simp add: redis_list_get_one_def Let_def poll_first_popped)
  have r_p2: "redis_list_get_one rprocess pr (replicate n None @ Some [] # rest) = Inr None"
    using assms(11,12) by (simp add: redis_list_get_one_def Let_def poll_first_popped)
  have r_p3: "redis_list_get_one rprocess pr (replicate n None) = Inr None"
    using assms(11,12) by (simp add: redis_list_get_one_def Let_def poll_nothing_popped)
  have n_p1: "nats_get_one nprocess subscribe next_arrives pn ntimeout
           = Inr (nprocess raw_message, pn\<lparr> fetch_sub := Some fs \<rparr>)"
    using assms(13,15) unfolding assms(14) by (simp add: nats_get_one_def Let_def)
  have n_p2: "nats_get_one nprocess subscribe next_times_out pn ntimeout
           = Inr (None, pn\<lparr> fetch_sub := Some fs \<rparr>)"
    using assms(13,16) unfolding assms(14) by (simp add: nats_get_one_def Let_def)
  have r_pi: "redis_list_aiter rprocess pr (map (\<lambda>raw. replicate n None @ [Some raw]) raws)
           = Inr (map (\<lambda>raw. rprocess \<lparr> msg_type = ''list'', msg_data = raw,
                                          msg_channel = name (list_sub pr) \<rparr>) raws)"
    using assms(11,12) redis_list_rounds_yields [OF assms(18)]
    by (simp add: redis_list_aiter_def)
  have n_pi: "nats_aiter nprocess subscribe messages pn
           = Inr (map nprocess (messages fs), pn\<lparr> fetch_sub := Some fs \<rparr>)"
    using assms(13) unfolding assms(14) by (simp add: nats_aiter_def Let_def)
  from c_h r_h n_h r_i n_i st c_p r_p1 r_p2 r_p3 n_p1 n_p2 r_pi n_pi show ?thesis by blast
qed

theorem get_one_excludes_handlers_witness:
  "confluent_get_one (map_option rev) (\<lambda>c t. Some ''raw'')
       \<lparr> calls = [''handler''], topics = [''in''], partitions = [] :: TopicPartition list,
         consumer = Some ''consumer'', builder = Some (\<lambda>ts ps. Inr ''consumer''), tasks = [] \<rparr>
       (5 :: nat)
     = Inl (AssertionError GetOneWithHandlers)
   \<and> confluent_start (\<lambda>c. Inr ()) (\<lambda>c. Inr ()) Inr
       \<lparr> calls = [''handler''], topics = [''in''], partitions = [] :: TopicPartition list,
         consumer = Some ''consumer'', builder = Some (\<lambda>ts ps. Inr ''consumer''), tasks = [] \<rparr>
     = Inr \<lparr> calls = [''handler''], topics = [''in''], partitions = [],
             consumer = Some ''consumer'', builder = Some (\<lambda>ts ps. Inr ''consumer''),
             tasks = [ConsumeTask] \<rparr>
   \<and> redis_list_get_one (\<lambda>m. Some (msg_data m))
       \<lparr> calls = [''handler''], client = Some ''redis'',
         list_sub = \<lparr> name = ''jobs'', batch = False, max_records = 10, polling_interval_ms = 100 \<rparr>,
         configs = \<lparr> ack_policy = Some DO_NOTHING, default_parser = None, default_decoder = None \<rparr> \<rparr>
       [None, Some ''job'']
     = Inl (AssertionError GetOneWithHandlers)
   \<and> redis_list_aiter (\<lambda>m. Some (msg_data m))
       \<lparr> calls = [''handler''], client = Some ''redis'',
         list_sub = \<lparr> name = ''jobs'', batch = False, max_records = 10, polling_interval_ms = 100 \<rparr>,
         configs = \<lparr> ack_policy = Some DO_NOTHING, default_parser = None, default_decoder = None \<rparr> \<rparr>
       [[None, Some ''job'']]
     = Inl (AssertionError IterWithHandlers)
   \<and> nats_get_one Some (\<lambda>s q. ''sub'') (\<lambda>s t. NextMsg ''raw'')
       \<lparr> calls = [''handler''], clear_subject = ''orders'', queue = ''workers'', fetch_sub = None \<rparr>
       (5 :: nat)
     = Inl (AssertionError GetOneWithHandlers)
   \<and> nats_aiter Some (\<lambda>s q. ''sub'') (\<lambda>s. [''m1'', ''m2''])
       \<lparr> calls = [''handler''], clear_subject = ''orders'', queue = ''workers'', fetch_sub = None \<rparr>
     = Inl (AssertionError IterWithHandlers)
   \<and> confluent_get_one (map_option rev) (\<lambda>c t. Some ''raw'')
       \<lparr> calls = [] :: string list, topics = [''in''], partitions = [] :: TopicPartition list,
         consumer = Some ''consumer'', builder = None, tasks = [] \<rparr> (5 :: nat)
     = Inr (Some ''war'')
   \<and> redis_list_get_one (\<lambda>m. Some (msg_data m))
       \<lparr> calls = [] :: string list, client = Some ''redis'',
         list_sub = \<lparr> name = ''jobs'', batch = False, max_records = 10, polling_interval_ms = 100 \<rparr>,
         configs = \<lparr> ack_policy = Some DO_NOTHING, default_parser = None, default_decoder = None \<rparr> \<rparr>
       [None, None, Some ''job'', Some ''later'']
     = Inr (Some ''job'')
   \<and> redis_list_get_one (\<lambda>m. Some (msg_data m))
       \<lparr> calls = [] :: string list, client = Some ''redis'',
         list_sub = \<lparr> name = ''jobs'', batch = False, max_records = 10, polling_interval_ms = 100 \<rparr>,
         configs = \<lparr> ack_policy = Some DO_NOTHING, default_parser = None, default_decoder = None \<rparr> \<rparr>
       [None, None]
     = Inr None
   \<and> redis_list_aiter (\<lambda>m. Some (msg_data m))
       \<lparr> calls = [] :: string list, client = Some ''redis'',
         list_sub = \<lparr> name = ''jobs'', batch = False, max_records = 10, polling_interval_ms = 100 \<rparr>,
         configs = \<lparr> ack_policy = Some DO_NOTHING, default_parser = None, default_decoder = None \<rparr> \<rparr>
       [[None, None, Some ''job''], [None, None, Some ''next'']]
     = Inr [Some ''job'', Some ''next'']
   \<and> nats_get_one Some (\<lambda>s q. ''sub'') (\<lambda>s t. NextMsg ''raw'')
       \<lparr> calls = [] :: string list, clear_subject = ''orders'', queue = ''workers'', fetch_sub = None \<rparr>
       (5 :: nat)
     = Inr (Some ''raw'',
            \<lparr> calls = [], clear_subject = ''orders'', queue = ''workers'', fetch_sub = Some ''sub'' \<rparr>)
   \<and> nats_get_one Some (\<lambda>s q. ''sub'') (\<lambda>s t. NatsTimeoutError)
       \<lparr> calls = [] :: string list, clear_subject = ''orders'', queue = ''workers'', fetch_sub = None \<rparr>
       (5 :: nat)
     = Inr (None :: string option,
            \<lparr> calls = [], clear_subject = ''orders'', queue = ''workers'', fetch_sub = Some ''sub'' \<rparr>)
   \<and> nats_aiter Some (\<lambda>s q. ''sub'') (\<lambda>s. [''m1'', ''m2''])
       \<lparr> calls = [] :: string list, clear_subject = ''orders'', queue = ''workers'', fetch_sub = None \<rparr>
     = Inr ([Some ''m1'', Some ''m2''],
            \<lparr> calls = [], clear_subject = ''orders'', queue = ''workers'', fetch_sub = Some ''sub'' \<rparr>)"
proof -
  let ?hc = "\<lparr> calls = [''handler''], topics = [''in''], partitions = [] :: TopicPartition list,
         consumer = Some ''consumer'', builder = Some (\<lambda>ts ps. Inr ''consumer''), tasks = [] \<rparr>"
  let ?ls = "\<lparr> name = ''jobs'', batch = False, max_records = 10, polling_interval_ms = 100 \<rparr>"
  let ?rc = "\<lparr> ack_policy = Some DO_NOTHING, default_parser = None, default_decoder = None \<rparr>
               :: redis_parser SubscriberUsecaseConfigs"
  let ?hr = "\<lparr> calls = [''handler''], client = Some ''redis'', list_sub = ?ls, configs = ?rc \<rparr>"
  let ?hn = "\<lparr> calls = [''handler''], clear_subject = ''orders'', queue = ''workers'',
               fetch_sub = None :: string option \<rparr>"
  let ?pc = "\<lparr> calls = [] :: string list, topics = [''in''], partitions = [] :: TopicPartition list,
         consumer = Some ''consumer'', builder = None, tasks = [] \<rparr>"
  let ?pr = "\<lparr> calls = [] :: string list, client = Some ''redis'', list_sub = ?ls, configs = ?rc \<rparr>"
  let ?pn = "\<lparr> calls = [] :: string list, clear_subject = ''orders'', queue = ''workers'',
               fetch_sub = None :: string option \<rparr>"
  show ?thesis
    using get_one_excludes_handlers [where hc = "?hc" and hr = "?hr" and hn = "?hn"
          and b = "\<lambda>ts ps. Inr ''consumer''" and built = "''consumer''"
          and parser_setup = "\<lambda>c. Inr ()" and consumer_start = "\<lambda>c. Inr ()"
          and base_start = Inr and based = "?hc"
          and pc = "?pc" and c = "''consumer''"
          and pr = "?pr" and rc = "''redis''" and pn = "?pn" and fs = "''sub''"
          and subscribe = "\<lambda>s q. ''sub''" and next_arrives = "\<lambda>s t. NextMsg ''raw''"
          and next_times_out = "\<lambda>s t. NatsTimeoutError" and raw_message = "''raw''"
          and ntimeout = "5 :: nat" and timeout = "5 :: nat"
          and cprocess = "map_option rev" and getone = "\<lambda>c t. Some ''raw''"
          and rprocess = "\<lambda>m. Some (msg_data m)" and lpops = "[None, Some ''job'']"
          and rounds = "[[None, Some ''job'']]"
          and nprocess = Some and next_msg = "\<lambda>s t. NextMsg ''raw''"
          and messages = "\<lambda>s. [''m1'', ''m2'']"
          and raw = "''job''" and raws = "[''job'', ''next'']" and n = 2 and rest = "[Some ''later'']"]
    by (simp add: numeral_2_eq_2)
qed

subsection \<open>Publishing\<close>

text \<open>Looking a key up in \<open>a | b\<close>: the value of \<open>b\<close> when \<open>b\<close> has the key, else that of \<open>a\<close>.\<close>

lemma map_of_dict_or:
  "distinct (map fst b) \<Longrightarrow>
     map_of (dict_or a b) k = (case map_of b k of Some v \<Rightarrow> Some v | None \<Rightarrow> map_of a k)"
proof (induction b arbitrary: a)
  case Nil
  show ?case by simp
next
  case (Cons p b)
  obtain k' v' where p: "p = (k', v')" by (cases p)
  from Cons.prems p have fresh: "k' \<notin> fst ` set b" and dist: "distinct (map fst b)"
    by simp_all
  from fresh have none: "map_of b k' = None"
    by (simp add: map_of_eq_None_iff)
  have step: "map_of (dict_or (AList.update k' v' a) b) k
                = (case map_of b k of Some v \<Rightarrow> Some v | None \<Rightarrow> map_of (AList.update k' v' a) k)"
    by (rule Cons.IH [OF dist])
  show ?case
  proof (cases "k = k'")
    case True
    have "map_of (AList.update k' v' a) k' = Some v'" by (simp add: update_conv')
    with True step none p show ?thesis by (simp split: option.splits)
  next
    case False
    then have "map_of (AList.update k' v' a) k = map_of a k" by (simp add: update_conv')
    with False step p show ?thesis by (simp split: option.splits)
  qed
qed

text \<open>
  C7, as the code has it: in the command built by \<open>publish\<close> (of the default and of
  the batch publisher) a header key has the caller's value when the caller gave the key
  and the publisher's default value otherwise, and the correlation id is the caller's
  when the caller gave a non-empty one, and a freshly generated one when the caller gave
  none or gave the empty string; the command is what is sent.
\<close>

theorem publish_merges_headers_and_correlation_id:
  assumes "distinct (map fst (or_default headers []))" and "cid \<noteq> []"
  shows "map_of (cmd_headers (DefaultPublisher_publish_command gen pub message topic key part ts
                   headers correlation_id reply_to no_confirm)) k
           = (case map_of (or_default headers []) k of
                Some v \<Rightarrow> Some v
              | None \<Rightarrow> map_of (pub_headers pub) k)
         \<and> map_of (cmd_headers (BatchPublisher_publish_command gen bpub messages topic part ts
                   headers correlation_id reply_to no_confirm)) k
           = (case map_of (or_default headers []) k of
                Some v \<Rightarrow> Some v
              | None \<Rightarrow> map_of (pub_headers bpub) k)
         \<and> cmd_correlation_id (DefaultPublisher_publish_command gen pub message topic key part ts
                   headers (Some cid) reply_to no_confirm) = cid
         \<and> cmd_correlation_id (DefaultPublisher_publish_command gen pub message topic key part ts
                   headers None reply_to no_confirm) = gen
         \<and> cmd_correlation_id (DefaultPublisher_publish_command gen pub message topic key part ts
                   headers (Some []) reply_to no_confirm) = gen
         \<and> cmd_correlation_id (BatchPublisher_publish_command gen bpub messages topic part ts
                   headers (Some cid) reply_to no_confirm) = cid
         \<and> cmd_correlation_id (BatchPublisher_publish_command gen bpub messages topic part ts
                   headers None reply_to no_confirm) = gen
         \<and> cmd_correlation_id (BatchPublisher_publish_command gen bpub messages topic part ts
                   headers (Some []) reply_to no_confirm) = gen
         \<and> DefaultPublisher_publish send gen pub message topic key part ts
                   headers correlation_id reply_to no_confirm
           = send (DefaultPublisher_publish_command gen pub message topic key part ts
                   headers correlation_id reply_to no_confirm)
         \<and> BatchPublisher_publish bsend gen bpub messages topic part ts
                   headers correlation_id reply_to no_confirm
           = bsend (BatchPublisher_publish_command gen bpub messages topic part ts
                   headers correlation_id reply_to no_confirm)"
  using assms
  by (simp add: DefaultPublisher_publish_command_def BatchPublisher_publish_command_def
      DefaultPublisher_publish_def BatchPublisher_publish_def map_of_dict_or)

theorem publish_merges_headers_and_correlation_id_witness:
  "distinct (map fst (or_default (Some [(''trace'', ''caller''), (''x'', ''1'')]) []))
   \<and> ''id-1'' \<noteq> []
   \<and> cmd_headers (DefaultPublisher_publish_command ''fresh''
         \<lparr> pub_topic = ''out'', pub_partition = None, pub_reply_to = '''',
           pub_headers = [(''app'', ''svc''), (''trace'', ''default'')], pub_key = None \<rparr>
         ''hello'' '''' None None None (Some [(''trace'', ''caller''), (''x'', ''1'')])
         (Some ''id-1'') '''' False)
       = [(''app'', ''svc''), (''trace'', ''caller''), (''x'', ''1'')]
   \<and> map_of (cmd_headers (DefaultPublisher_publish_command ''fresh''
         \<lparr> pub_topic = ''out'', pub_partition = None, pub_reply_to = '''',
           pub_headers = [(''app'', ''svc''), (''trace'', ''default'')], pub_key = None \<rparr>
         ''hello'' '''' None None None (Some [(''trace'', ''caller''), (''x'', ''1'')])
         (Some ''id-1'') '''' False)) ''trace''
       = Some ''caller''
   \<and> cmd_correlation_id (DefaultPublisher_publish_command ''fresh''
         \<lparr> pub_topic = ''out'', pub_partition = None, pub_reply_to = '''',
           pub_headers = [(''app'', ''svc''), (''trace'', ''default'')], pub_key = None \<rparr>
         ''hello'' '''' None None None (Some [(''trace'', ''caller''), (''x'', ''1'')])
         (Some ''id-1'') '''' False)
       = ''id-1''"
proof -
  let ?h = "Some [(''trace'', ''caller''), (''x'', ''1'')]"
  have d: "distinct (map fst (or_default ?h []))" by simp
  have c: "''id-1'' \<noteq> []" by simp
  show ?thesis
    using publish_merges_headers_and_correlation_id [OF d c, where gen = "''fresh''"
        and pub = "\<lparr> pub_topic = ''out'', pub_partition = None, pub_reply_to = '''',
           pub_headers = [(''app'', ''svc''), (''trace'', ''default'')], pub_key = None \<rparr>"
        and message = "''hello''" and topic = "''''" and key = None and part = None and ts = None
        and reply_to = "''''" and no_confirm = False and k = "''trace''"
        and correlation_id = "Some ''id-1''"]
    by (simp add: DefaultPublisher_publish_command_def)
qed

text \<open>
  C7 as stated fails when the caller supplies the empty string as correlation id: the
  command carries the generated identifier, not the caller's.
\<close>

theorem publish_empty_correlation_id_replaced:
  "cmd_correlation_id (DefaultPublisher_publish_command ''fresh''
       \<lparr> pub_topic = ''out'', pub_partition = None, pub_reply_to = '''',
         pub_headers = [], pub_key = None \<rparr>
       ''hello'' '''' None None None None (Some '''') '''' False)
     = ''fresh''
   \<and> cmd_correlation_id (BatchPublisher_publish_command ''fresh''
       \<lparr> pub_topic = ''out'', pub_partition = None, pub_reply_to = '''', pub_headers = [] \<rparr>
       [''hello''] '''' None None None (Some '''') '''' False)
     = ''fresh''
   \<and> ''fresh'' \<noteq> ''''"
  by (simp add: DefaultPublisher_publish_command_def BatchPublisher_publish_command_def)

end
